theory Spec2Isabelle
  imports Main "HOL-Library.AList"
begin

section \<open>Data model\<close>

type_synonym path = string
type_synonym bytes = string

text \<open>
  An uploaded file as the file uploader widget hands it to the script: an identity, a
  name and its bytes (\<^verbatim>\<open>file.name\<close>, \<^verbatim>\<open>file.getvalue()\<close>). The script
  compares files with \<^verbatim>\<open>in\<close> / \<^verbatim>\<open>not in\<close>; two uploads are the same file
  when their identities are, and an identity determines the name and the bytes, so HOL
  equality on the record is that comparison.
\<close>

record uploaded_file =
  file_id :: nat
  name :: string
  getvalue :: bytes

text \<open>A text segment or chunk with the path of the file it came from.\<close>

record document =
  page_content :: string
  source :: path

datatype error = LoadError | FileNotFoundError | EmbeddingError | IndexError

text \<open>The exception a malformed structured LLM output raises, with its message.\<close>

datatype exception = OutputParserException string

fun str :: "exception \<Rightarrow> string" where
  "str (OutputParserException msg) = msg"

record 'idx tool =
  tool_name :: string
  description :: string
  retriever :: 'idx

record 'idx agent =
  tools :: "'idx tool list"
  handle_parsing_errors :: "exception \<Rightarrow> string"

record message =
  role :: string
  content :: string

datatype base_message = HumanMessage string | AIMessage string

text \<open>
  The calls the rebuild block makes to the billed services: the splitter, the embedding
  and index construction (\<^verbatim>\<open>FAISS.from_documents\<close>, with the chunks it is given) and
  the composition of an agent over the LLM binding (with the number of tools).
\<close>

datatype call =
  Split_documents
  | FAISS_from_documents "document list"
  | From_llm_and_tools nat

subsection \<open>The document loader\<close>

text \<open>
  Modelled from the spec: the class \<^verbatim>\<open>DocumentLoader\<close> of
  \<^verbatim>\<open>utils/langchain_loaders.py\<close> is not among the sources. The spec gives it as a
  mapping of source path to an ordered sequence of raw text segments, with
  \<^verbatim>\<open>add(path)\<close> failing with LoadError on unsupported or corrupt content,
  \<^verbatim>\<open>remove(path)\<close> a no-op on an unknown path, \<^verbatim>\<open>allSegments()\<close> the ordered
  sequence of (document, text) and \<^verbatim>\<open>documentCount()\<close> an integer. The mapping is an
  association list in insertion order, as a Python dict is. Parsing a file of a given
  format is the loader's own business: it is the parameter \<open>parse\<close>.
\<close>

type_synonym loader = "(path \<times> string list) list"

text \<open>Modelled from the spec: a new loader stores no document.\<close>

definition DocumentLoader :: loader where
  "DocumentLoader = []"

text \<open>
  Modelled from the spec: \<^verbatim>\<open>add(path)\<close> reads the file at the path, fails with
  LoadError on unsupported or corrupt content (the parser decides) and otherwise stores the
  segments under the path, leaving every other path as it was.
\<close>

definition loader_load ::
  "(path \<Rightarrow> bytes \<Rightarrow> error + string list) \<Rightarrow> (path \<times> bytes) list \<Rightarrow> path \<Rightarrow> loader
     \<Rightarrow> error + loader" where
  "loader_load parse_file dir p l =
     (case map_of dir p of
        None \<Rightarrow> Inl FileNotFoundError
      | Some b \<Rightarrow>
          (case parse_file p b of
             Inl e \<Rightarrow> Inl e
           | Inr segments \<Rightarrow> Inr (AList.update p segments l)))"

text \<open>Modelled from the spec: \<^verbatim>\<open>remove(path)\<close> forgets the path, a no-op when it is unknown.\<close>

definition loader_remove :: "path \<Rightarrow> loader \<Rightarrow> loader" where
  "loader_remove p l = AList.delete p l"

text \<open>Modelled from the spec: \<^verbatim>\<open>documentCount()\<close>, the number of stored paths.\<close>

definition loader_size :: "loader \<Rightarrow> nat" where
  "loader_size l = length l"

text \<open>
  Modelled from the spec: \<^verbatim>\<open>allSegments()\<close>, the segments of every stored path in
  order, each with its path.
\<close>

definition loader_documents :: "loader \<Rightarrow> document list" where
  "loader_documents l =
     concat (map (\<lambda>(p, segments). map (\<lambda>t. \<lparr>page_content = t, source = p\<rparr>) segments) l)"

subsection \<open>External collaborators\<close>

text \<open>
  What the script takes from outside: the loader's parser, the text splitter of the
  library (called with its chunk size and overlap), the vector store constructor with the
  embedding binding (which may raise), and the cached temporary directory.
\<close>

record 'idx params =
  parse :: "path \<Rightarrow> bytes \<Rightarrow> error + string list"
  split_documents :: "nat \<Rightarrow> nat \<Rightarrow> document list \<Rightarrow> document list"
  from_documents :: "document list \<Rightarrow> error + 'idx"
  upload_tmp_dir :: path

subsection \<open>Session state\<close>

text \<open>
  \<^verbatim>\<open>st.session_state\<close> as a script run finds it: each key is present or not. The
  key \<^verbatim>\<open>langchain_messages\<close> is the one \<^verbatim>\<open>StreamlitChatMessageHistory()\<close> keeps the
  agent's memory under.
\<close>

record 'idx session_state =
  k_files :: "uploaded_file list option"
  k_loader :: "loader option"
  k_on_change :: "bool option"
  k_messages :: "message list option"
  k_agent :: "'idx agent option"
  k_langchain_messages :: "base_message list option"

text \<open>
  The state the rest of the script works on, once every key is there (after line 135):
  the session keys, the contents of the temporary directory and the log of service calls.
\<close>

record 'idx state =
  files :: "uploaded_file list"
  loader :: loader
  on_change :: bool
  messages :: "message list"
  agent :: "'idx agent"
  langchain_messages :: "base_message list"
  tmp_dir :: "(path \<times> bytes) list"
  calls :: "call list"

section \<open>The script\<close>

subsection \<open>Lines 108 to 135: memory, Clear History, initialisation\<close>

definition StreamlitChatMessageHistory :: "'idx session_state \<Rightarrow> 'idx session_state" where
  "StreamlitChatMessageHistory ss =
     (if k_langchain_messages ss = None then ss\<lparr>k_langchain_messages := Some []\<rparr> else ss)"

definition handle_clear_history :: "bool \<Rightarrow> 'idx session_state \<Rightarrow> 'idx session_state" where
  "handle_clear_history clear_history ss =
     (if clear_history then ss\<lparr>k_messages := Some []\<rparr> else ss)"

definition initial_agent :: "'idx agent" where
  "initial_agent = \<lparr>tools = [], handle_parsing_errors = (\<lambda>error. take 50 (str error))\<rparr>"

definition get_or :: "'a option \<Rightarrow> 'a \<Rightarrow> 'a" where
  "get_or v d = (case v of None \<Rightarrow> d | Some x \<Rightarrow> x)"

text \<open>
  Lines 121 to 135: a key that is absent gets its initial value. Composing the initial
  agent is a call on the LLM binding, logged when it happens.
\<close>

definition initialise ::
  "'idx session_state \<Rightarrow> (path \<times> bytes) list \<Rightarrow> call list \<Rightarrow> 'idx state" where
  "initialise ss dir log =
     \<lparr>files = get_or (k_files ss) [],
      loader = get_or (k_loader ss) DocumentLoader,
      on_change = get_or (k_on_change ss) False,
      messages = get_or (k_messages ss) [],
      agent = get_or (k_agent ss) initial_agent,
      langchain_messages = get_or (k_langchain_messages ss) [],
      tmp_dir = dir,
      calls = (if k_agent ss = None then log @ [From_llm_and_tools 0] else log)\<rparr>"

definition empty_session :: "'idx session_state" where
  "empty_session =
     \<lparr>k_files = None, k_loader = None, k_on_change = None, k_messages = None,
      k_agent = None, k_langchain_messages = None\<rparr>"

definition prologue ::
  "bool \<Rightarrow> 'idx session_state \<Rightarrow> (path \<times> bytes) list \<Rightarrow> call list \<Rightarrow> 'idx state" where
  "prologue clear_history ss dir log =
     initialise (handle_clear_history clear_history (StreamlitChatMessageHistory ss)) dir log"

definition fresh :: "'idx state" where
  "fresh = prologue False empty_session [] []"

subsection \<open>Lines 143 to 159: file uploads\<close>

definition staged_path :: "'idx params \<Rightarrow> uploaded_file \<Rightarrow> path" where
  "staged_path P file = upload_tmp_dir P @ ''/'' @ name file"

text \<open>
  The body of the \<^verbatim>\<open>if\<close> of the upload loop, in the order of the source: the file is
  appended to the session's files, its bytes are written to the temporary path, the
  loader loads that path (and may raise), and the flag is set.
\<close>

definition add_file :: "'idx params \<Rightarrow> uploaded_file \<Rightarrow> 'idx state \<Rightarrow> error option \<times> 'idx state" where
  "add_file P file s =
     (let s1 = s\<lparr>files := files s @ [file]\<rparr>;
          temp_filepath = staged_path P file;
          s2 = s1\<lparr>tmp_dir := AList.update temp_filepath (getvalue file) (tmp_dir s1)\<rparr>
      in case loader_load (parse P) (tmp_dir s2) temp_filepath (loader s2) of
           Inl e \<Rightarrow> (Some e, s2)
         | Inr l \<Rightarrow> (None, s2\<lparr>loader := l, on_change := True\<rparr>))"

fun add_loop :: "'idx params \<Rightarrow> uploaded_file list \<Rightarrow> 'idx state \<Rightarrow> error option \<times> 'idx state" where
  "add_loop P [] s = (None, s)"
| "add_loop P (file # uploaded_files) s =
     (if file \<notin> set (files s) then
        (case add_file P file s of
           (Some e, s') \<Rightarrow> (Some e, s')
         | (None, s') \<Rightarrow> add_loop P uploaded_files s')
      else add_loop P uploaded_files s)"

subsection \<open>Lines 161 to 177: file removals\<close>

text \<open>
  The body of the \<^verbatim>\<open>if\<close> of the removal loop: the loader forgets the path, the
  temporary file is unlinked (which raises when it is not there), the file is removed
  from the session's files (\<^verbatim>\<open>list.remove\<close>: the first equal element) and the flag is
  set.
\<close>

definition remove_file :: "'idx params \<Rightarrow> uploaded_file \<Rightarrow> 'idx state \<Rightarrow> error option \<times> 'idx state" where
  "remove_file P file s =
     (let temp_filepath = staged_path P file;
          s1 = s\<lparr>loader := loader_remove temp_filepath (loader s)\<rparr>
      in if map_of (tmp_dir s1) temp_filepath = None then (Some FileNotFoundError, s1)
         else (None, s1\<lparr>tmp_dir := AList.delete temp_filepath (tmp_dir s1),
                         files := remove1 file (files s1),
                         on_change := True\<rparr>))"

text \<open>
  The loop runs over \<^verbatim>\<open>st.session_state.files\<close>, the very list its body removes from.
  A Python list iterator holds an index \<open>i\<close>: each round it stops when \<open>i\<close> has reached
  the current length, and otherwise yields the element at \<open>i\<close> and moves to \<open>i + 1\<close>.
  The source's loop is \<open>removal_loop P uploaded_files 0\<close>.
\<close>

function removal_loop ::
  "'idx params \<Rightarrow> uploaded_file list \<Rightarrow> nat \<Rightarrow> 'idx state \<Rightarrow> error option \<times> 'idx state" where
  "removal_loop P uploaded_files i s =
     (if i < length (files s) then
        (if files s ! i \<notin> set uploaded_files then
           (case remove_file P (files s ! i) s of
              (Some e, s') \<Rightarrow> (Some e, s')
            | (None, s') \<Rightarrow> removal_loop P uploaded_files (Suc i) s')
         else removal_loop P uploaded_files (Suc i) s)
      else (None, s))"
  by pat_completeness auto

lemma remove_file_length:
  "remove_file P file s = (None, s') \<Longrightarrow> length (files s') \<le> length (files s)"
  by (auto simp: remove_file_def Let_def length_remove1 split: if_splits)

termination removal_loop
  apply (relation "measure (\<lambda>(P, uploaded_files, i, s). length (files s) - i)")
    apply simp
   apply (auto dest!: remove_file_length[OF sym])
  done

declare removal_loop.simps [simp del]

definition reconcile :: "'idx params \<Rightarrow> uploaded_file list \<Rightarrow> 'idx state \<Rightarrow> error option \<times> 'idx state" where
  "reconcile P uploaded_files s =
     (case add_loop P uploaded_files s of
        (Some e, s') \<Rightarrow> (Some e, s')
      | (None, s') \<Rightarrow> removal_loop P uploaded_files 0 s')"

subsection \<open>Lines 179 to 220: the rebuild\<close>

text \<open>\<^verbatim>\<open>name.split(".")[0]\<close>: what stands before the first dot.\<close>

definition before_dot :: "string \<Rightarrow> string" where
  "before_dot n = takeWhile (\<lambda>c. c \<noteq> CHR ''.'') n"

fun join :: "string \<Rightarrow> string list \<Rightarrow> string" where
  "join sep [] = []"
| "join sep [x] = x"
| "join sep (x # y # ys) = x @ sep @ join sep (y # ys)"

definition make_agent :: "'idx tool list \<Rightarrow> 'idx agent" where
  "make_agent ts = \<lparr>tools = ts, handle_parsing_errors = (\<lambda>error. take 50 (str error))\<rparr>"

definition vector_tool :: "uploaded_file list \<Rightarrow> 'idx \<Rightarrow> 'idx tool" where
  "vector_tool uploaded_files vector =
     \<lparr>tool_name = ''vector-tool'',
      description = ''Useful for searching information about ''
                      @ join '', '' (map (\<lambda>file. before_dot (name file)) uploaded_files),
      retriever = vector\<rparr>"

text \<open>
  The block under \<^verbatim>\<open>if st.session_state.on_change\<close>. The branch is taken on
  \<^verbatim>\<open>loader.size > 0\<close>. An exception of the vector store constructor leaves the
  block before either assignment to the session state.
\<close>

definition rebuild :: "'idx params \<Rightarrow> uploaded_file list \<Rightarrow> 'idx state \<Rightarrow> error option \<times> 'idx state" where
  "rebuild P uploaded_files s =
     (if on_change s then
        (if loader_size (loader s) > 0 then
           (let documents = split_documents P 1500 200 (loader_documents (loader s));
                s1 = s\<lparr>calls := calls s @ [Split_documents, FAISS_from_documents documents]\<rparr>
            in case from_documents P documents of
                 Inl e \<Rightarrow> (Some e, s1)
               | Inr vector \<Rightarrow>
                   (None, s1\<lparr>agent := make_agent [vector_tool uploaded_files vector],
                              calls := calls s1 @ [From_llm_and_tools 1],
                              on_change := False\<rparr>))
         else (None, s\<lparr>agent := make_agent [],
                        calls := calls s @ [From_llm_and_tools 0],
                        on_change := False\<rparr>))
      else (None, s))"

subsection \<open>One run of the script after the prologue, and a session of runs\<close>

definition cycle :: "'idx params \<Rightarrow> uploaded_file list \<Rightarrow> 'idx state \<Rightarrow> error option \<times> 'idx state" where
  "cycle P uploaded_files s =
     (case reconcile P uploaded_files s of
        (Some e, s') \<Rightarrow> (Some e, s')
      | (None, s') \<Rightarrow> rebuild P uploaded_files s')"

text \<open>
  A run that raises stops there; what it had written to the session state stays, and the
  next run starts from it.
\<close>

fun run :: "'idx params \<Rightarrow> uploaded_file list list \<Rightarrow> 'idx state \<Rightarrow> 'idx state" where
  "run P [] s = s"
| "run P (uploaded_files # rest) s = run P rest (snd (cycle P uploaded_files s))"

subsection \<open>Invoking the agent\<close>

text \<open>What the LLM step of one turn comes to: an answer, a malformed structured output, or a failure.\<close>

datatype llm_outcome = Answer string | Malformed exception | Failed error

text \<open>
  Modelled from the spec: \<^verbatim>\<open>AgentExecutor.invoke\<close> belongs to the agent library and is
  not among the sources. The spec gives the boundary as: invoke returns an output string,
  fails on an irrecoverable failure, and a structured-output parse failure is caught
  internally and surfaced as the output through the agent's \<^verbatim>\<open>handle_parsing_errors\<close>.
\<close>

definition invoke :: "'idx agent \<Rightarrow> llm_outcome \<Rightarrow> error + string" where
  "invoke a r =
     (case r of
        Answer out \<Rightarrow> Inr out
      | Malformed e \<Rightarrow> Inr (handle_parsing_errors a e)
      | Failed e \<Rightarrow> Inl e)"

section \<open>Concrete inputs\<close>

text \<open>
  Collaborators and files to run the script on. The parser rejects an empty file and
  otherwise gives the whole content as one segment; the splitter drops segments of
  spaces only; the vector store constructor raises on an empty list of chunks and
  otherwise keeps the chunks as its index.
\<close>

definition blank :: "string \<Rightarrow> bool" where
  "blank t = list_all (\<lambda>c. c = CHR '' '') t"

definition demo_params :: "document list params" where
  "demo_params =
     \<lparr>parse = (\<lambda>p b. if b = [] then Inl LoadError else Inr [b]),
      split_documents =
        (\<lambda>chunk_size chunk_overlap docs. filter (\<lambda>d. \<not> blank (page_content d)) docs),
      from_documents = (\<lambda>docs. if docs = [] then Inl IndexError else Inr docs),
      upload_tmp_dir = ''/tmp/u''\<rparr>"

text \<open>The same with an embedding service that is down, and with a lenient constructor.\<close>

definition failing_params :: "document list params" where
  "failing_params = demo_params\<lparr>from_documents := (\<lambda>docs. Inl EmbeddingError)\<rparr>"

definition lenient_params :: "document list params" where
  "lenient_params = demo_params\<lparr>from_documents := (\<lambda>docs. Inr docs)\<rparr>"

definition file_a :: uploaded_file where
  "file_a = \<lparr>file_id = 1, name = ''a.txt'', getvalue = ''alpha''\<rparr>"

definition file_b :: uploaded_file where
  "file_b = \<lparr>file_id = 2, name = ''b.txt'', getvalue = ''beta''\<rparr>"

definition file_bad :: uploaded_file where
  "file_bad = \<lparr>file_id = 3, name = ''c.txt'', getvalue = []\<rparr>"

definition file_blank :: uploaded_file where
  "file_blank = \<lparr>file_id = 4, name = ''d.txt'', getvalue = '' ''\<rparr>"

text \<open>A session that has uploaded \<open>file_a\<close> and \<open>file_b\<close> in one run.\<close>

definition session_ab :: "document list state" where
  "session_ab = run demo_params [[file_a, file_b]] fresh"


definition session_blank :: "document list state" where
  "session_blank = snd (reconcile demo_params [file_blank] fresh)"





section \<open>Predicates on agents and states\<close>

text \<open>An agent whose parsing-error handler is the truncation to 50 characters.\<close>

definition truncating :: "'idx agent \<Rightarrow> bool" where
  "truncating a = (handle_parsing_errors a = (\<lambda>error. take 50 (str error)))"


lemmas script_defs =
  cycle_def reconcile_def rebuild_def add_file_def remove_file_def fresh_def prologue_def
  initialise_def handle_clear_history_def StreamlitChatMessageHistory_def empty_session_def
  get_or_def loader_load_def loader_remove_def loader_size_def loader_documents_def
  staged_path_def DocumentLoader_def initial_agent_def make_agent_def vector_tool_def
  before_dot_def Let_def

lemmas demo_defs =
  demo_params_def failing_params_def lenient_params_def blank_def
  file_a_def file_b_def file_bad_def file_blank_def session_ab_def

section \<open>The rebuild\<close>

text \<open>
  C7. When the flag \<^verbatim>\<open>on_change\<close> is false the rebuild block does nothing: it returns
  without an error and the whole state is the one it was given, so the log of calls to
  the splitter, the embedding service and the LLM binding has no new entry, and the
  published agent, the tracked files and the flag are what they were.
\<close>

theorem rebuild_clean_noop:
  "\<not> on_change s \<Longrightarrow> rebuild P uploaded_files s = (None, s)"
  by (simp add: rebuild_def)

theorem rebuild_clean_noop_witness:
  "\<not> on_change (fresh :: document list state)
   \<and> rebuild demo_params [file_a] (fresh :: document list state) = (None, fresh)"
proof -
  have h: "\<not> on_change (fresh :: document list state)"
    by (simp add: script_defs)
  show ?thesis using h rebuild_clean_noop [OF h, of demo_params "[file_a]"] by simp
qed

text \<open>
  C5. A rebuild fails exactly when it is dirty, the loader is not empty and the vector
  store constructor raises; the state it leaves differs from the one it was given only
  in the log of attempted calls. So after a failed rebuild the published agent is the
  previous one, the flag is still true, and the tracked files, the loader, the staged
  files and the conversation are untouched: nothing half built is published.
\<close>

theorem rebuild_failure_keeps_agent:
  "(rebuild P uploaded_files s = (Some e, s')
      \<longleftrightarrow> on_change s \<and> 0 < loader_size (loader s)
          \<and> from_documents P (split_documents P 1500 200 (loader_documents (loader s))) = Inl e
          \<and> s' = s\<lparr>calls := calls s @ [Split_documents,
                 FAISS_from_documents (split_documents P 1500 200 (loader_documents (loader s)))]\<rparr>)
   \<and> (rebuild P uploaded_files s = (Some e, s')
      \<longrightarrow> agent s' = agent s \<and> on_change s' \<and> files s' = files s \<and> loader s' = loader s
          \<and> tmp_dir s' = tmp_dir s \<and> messages s' = messages s
          \<and> langchain_messages s' = langchain_messages s)"
  by (auto simp: rebuild_def Let_def split: sum.splits if_splits)

theorem rebuild_failure_keeps_agent_witness:
  "rebuild failing_params [file_a, file_b] (session_ab\<lparr>on_change := True\<rparr>)
     = (Some EmbeddingError,
        session_ab\<lparr>on_change := True,
          calls := calls session_ab @ [Split_documents,
            FAISS_from_documents
              [\<lparr>page_content = ''alpha'', source = ''/tmp/u/a.txt''\<rparr>,
               \<lparr>page_content = ''beta'', source = ''/tmp/u/b.txt''\<rparr>]]\<rparr>)
   \<and> tools (agent session_ab) \<noteq> []"
proof -
  have l: "loader session_ab = [(''/tmp/u/a.txt'', [''alpha'']), (''/tmp/u/b.txt'', [''beta''])]"
    by (simp add: script_defs demo_defs removal_loop.simps)
  have a: "tools (agent session_ab) \<noteq> []"
    by (simp add: script_defs demo_defs removal_loop.simps)
  have "from_documents failing_params
          (split_documents failing_params 1500 200
             (loader_documents (loader (session_ab\<lparr>on_change := True\<rparr>)))) = Inl EmbeddingError"
    by (simp add: failing_params_def demo_params_def)
  moreover have "split_documents failing_params 1500 200
      (loader_documents (loader (session_ab\<lparr>on_change := True\<rparr>)))
      = [\<lparr>page_content = ''alpha'', source = ''/tmp/u/a.txt''\<rparr>,
         \<lparr>page_content = ''beta'', source = ''/tmp/u/b.txt''\<rparr>]"
    by (simp add: l failing_params_def demo_params_def loader_documents_def blank_def)
  ultimately show ?thesis
    using a rebuild_failure_keeps_agent
      [of failing_params "[file_a, file_b]" "session_ab\<lparr>on_change := True\<rparr>" EmbeddingError
          "session_ab\<lparr>on_change := True,
          calls := calls session_ab @ [Split_documents,
            FAISS_from_documents
              [\<lparr>page_content = ''alpha'', source = ''/tmp/u/a.txt''\<rparr>,
               \<lparr>page_content = ''beta'', source = ''/tmp/u/b.txt''\<rparr>]]\<rparr>"]
    by (simp add: l loader_size_def)
qed

section \<open>Clear History\<close>

text \<open>
  C10. Pressing Clear History sets the key \<^verbatim>\<open>messages\<close> to the empty list and
  touches no other key: the agent's memory under \<^verbatim>\<open>langchain_messages\<close>, the tracked
  files, the loader, the flag and the published agent are what they were. The state the
  rest of the run works on is the one it would have been without the button, with only
  the displayed transcript emptied.
\<close>

theorem clear_history_resets_only_messages:
  "k_messages (handle_clear_history True ss) = Some []
   \<and> k_langchain_messages (handle_clear_history True ss) = k_langchain_messages ss
   \<and> k_files (handle_clear_history True ss) = k_files ss
   \<and> k_loader (handle_clear_history True ss) = k_loader ss
   \<and> k_on_change (handle_clear_history True ss) = k_on_change ss
   \<and> k_agent (handle_clear_history True ss) = k_agent ss
   \<and> prologue True ss dir log = (prologue False ss dir log)\<lparr>messages := []\<rparr>"
  by (simp add: handle_clear_history_def prologue_def initialise_def get_or_def
      StreamlitChatMessageHistory_def)

section \<open>What the two loops leave alone\<close>

lemma add_file_frame:
  "add_file P file s = (r, s') \<Longrightarrow>
     agent s' = agent s \<and> messages s' = messages s
     \<and> langchain_messages s' = langchain_messages s \<and> calls s' = calls s"
  by (auto simp: add_file_def Let_def split: sum.splits)

lemma remove_file_frame:
  "remove_file P file s = (r, s') \<Longrightarrow>
     agent s' = agent s \<and> messages s' = messages s
     \<and> langchain_messages s' = langchain_messages s \<and> calls s' = calls s"
  by (auto simp: remove_file_def Let_def split: if_splits)

lemma add_loop_frame:
  "add_loop P uploaded_files s = (r, s') \<Longrightarrow>
     agent s' = agent s \<and> messages s' = messages s
     \<and> langchain_messages s' = langchain_messages s \<and> calls s' = calls s"
proof (induction uploaded_files arbitrary: s)
  case Nil
  then show ?case by simp
next
  case (Cons f uploaded_files)
  show ?case
  proof (cases "f \<in> set (files s)")
    case True
    with Cons show ?thesis by simp
  next
    case False
    obtain r1 s1 where a: "add_file P f s = (r1, s1)" by (cases "add_file P f s")
    note fr = add_file_frame [OF a]
    show ?thesis
    proof (cases r1)
      case None
      with Cons.prems False a have "add_loop P uploaded_files s1 = (r, s')" by simp
      from Cons.IH [OF this] fr show ?thesis by simp
    next
      case (Some e)
      with Cons.prems False a have "s' = s1" by simp
      with fr show ?thesis by simp
    qed
  qed
qed

lemma removal_loop_frame:
  "removal_loop P uploaded_files i s = (r, s') \<Longrightarrow>
     agent s' = agent s \<and> messages s' = messages s
     \<and> langchain_messages s' = langchain_messages s \<and> calls s' = calls s"
proof (induction P uploaded_files i s rule: removal_loop.induct)
  case (1 P uploaded_files i s)
  show ?case
  proof (cases "i < length (files s)")
    case False
    with "1.prems" show ?thesis by (simp add: removal_loop.simps)
  next
    case True
    note lt = this
    show ?thesis
    proof (cases "files s ! i \<in> set uploaded_files")
      case True
      with lt "1.prems" have "removal_loop P uploaded_files (Suc i) s = (r, s')"
        by (simp add: removal_loop.simps)
      from "1.IH"(2) [OF lt _ this] True show ?thesis by simp
    next
      case False
      obtain r1 s1 where a: "remove_file P (files s ! i) s = (r1, s1)"
        by (cases "remove_file P (files s ! i) s")
      note f = remove_file_frame [OF a]
      show ?thesis
      proof (cases r1)
        case None
        with lt False a "1.prems" have "removal_loop P uploaded_files (Suc i) s1 = (r, s')"
          by (simp add: removal_loop.simps)
        from "1.IH"(1) [OF lt False a [symmetric] None this] f show ?thesis by simp
      next
        case (Some e)
        with lt False a "1.prems" have "s' = s1" by (simp add: removal_loop.simps)
        with f show ?thesis by simp
      qed
    qed
  qed
qed

lemma reconcile_frame:
  "reconcile P uploaded_files s = (r, s') \<Longrightarrow>
     agent s' = agent s \<and> messages s' = messages s
     \<and> langchain_messages s' = langchain_messages s \<and> calls s' = calls s"
proof -
  assume h: "reconcile P uploaded_files s = (r, s')"
  obtain r1 s1 where a: "add_loop P uploaded_files s = (r1, s1)"
    by (cases "add_loop P uploaded_files s")
  note fa = add_loop_frame [OF a]
  show ?thesis
  proof (cases r1)
    case None
    with h a have "removal_loop P uploaded_files 0 s1 = (r, s')" by (simp add: reconcile_def)
    from removal_loop_frame [OF this] fa show ?thesis by simp
  next
    case (Some e)
    with h a have "s' = s1" by (simp add: reconcile_def)
    with fa show ?thesis by simp
  qed
qed

section \<open>Facts about the concrete sessions\<close>

lemma session_ab_facts:
  "files session_ab = [file_a, file_b]"
  "loader session_ab = [(''/tmp/u/a.txt'', [''alpha'']), (''/tmp/u/b.txt'', [''beta''])]"
  "tmp_dir session_ab = [(''/tmp/u/a.txt'', ''alpha''), (''/tmp/u/b.txt'', ''beta'')]"
  "\<not> on_change session_ab"
  "length (tools (agent session_ab)) = 1"
  by (simp_all add: session_ab_def script_defs demo_defs removal_loop.simps)

lemma session_blank_facts:
  "files session_blank = [file_blank]"
  "loader session_blank = [(''/tmp/u/d.txt'', ['' ''])]"
  "on_change session_blank"
  by (simp_all add: session_blank_def script_defs demo_defs removal_loop.simps)

section \<open>Parsing errors\<close>

lemma rebuild_truncating:
  "truncating (agent s) \<Longrightarrow> truncating (agent (snd (rebuild P uploaded_files s)))"
  by (auto simp: rebuild_def Let_def truncating_def make_agent_def split: sum.splits)

lemma cycle_truncating:
  assumes "truncating (agent s)"
  shows "truncating (agent (snd (cycle P uploaded_files s)))"
proof -
  obtain r1 s1 where a: "reconcile P uploaded_files s = (r1, s1)"
    by (cases "reconcile P uploaded_files s")
  from reconcile_frame [OF a] assms have t: "truncating (agent s1)" by simp
  show ?thesis
  proof (cases r1)
    case None
    with a have "cycle P uploaded_files s = rebuild P uploaded_files s1" by (simp add: cycle_def)
    with rebuild_truncating [OF t] show ?thesis by simp
  next
    case (Some e)
    with a t show ?thesis by (simp add: cycle_def)
  qed
qed

lemma run_truncating:
  "truncating (agent s) \<Longrightarrow> truncating (agent (run P ups s))"
  by (induction ups arbitrary: s) (simp_all add: cycle_truncating)

lemma fresh_truncating: "truncating (agent fresh)"
  by (simp add: truncating_def script_defs)

text \<open>
  C8. Every agent the script publishes carries the handler that turns a parsing error
  into its message cut to 50 characters: the initial agent, the agent with the vector
  tool and the agent without it, hence the agent of every state a session of runs
  reaches. Invoking such an agent on a malformed structured output gives that string of
  at most 50 characters as the output of the turn, not an error.
\<close>

theorem published_agents_recover_parse_errors:
  "handle_parsing_errors initial_agent e = take 50 (str e)
   \<and> handle_parsing_errors (make_agent ts) e = take 50 (str e)
   \<and> handle_parsing_errors (agent (run P ups fresh)) e = take 50 (str e)
   \<and> invoke initial_agent (Malformed e) = Inr (take 50 (str e))
   \<and> invoke (make_agent ts) (Malformed e) = Inr (take 50 (str e))
   \<and> invoke (agent (run P ups fresh)) (Malformed e) = Inr (take 50 (str e))
   \<and> length (take 50 (str e)) \<le> 50"
proof -
  have "truncating (agent (run P ups fresh))"
    by (rule run_truncating [OF fresh_truncating])
  then show ?thesis
    by (simp add: invoke_def truncating_def initial_agent_def make_agent_def)
qed

section \<open>The two branches of the rebuild\<close>

text \<open>
  C3, as the code has it. A dirty rebuild branches on the number of documents the loader
  stores, not on the number of chunks. With an empty loader the agent is composed with no
  tool and neither the splitter nor the vector store constructor is called. With a
  non-empty loader the documents are split and the vector store constructor is called on
  the chunks whatever their number: when it raises, the rebuild raises; when it returns,
  the agent is composed with the one vector tool.
\<close>

theorem rebuild_branches_on_loader_size:
  assumes "on_change s"
  shows "(loader_size (loader s) = 0 \<longrightarrow>
            rebuild P uploaded_files s
              = (None, s\<lparr>agent := make_agent [],
                          calls := calls s @ [From_llm_and_tools 0],
                          on_change := False\<rparr>))
       \<and> (0 < loader_size (loader s) \<longrightarrow>
            (case from_documents P (split_documents P 1500 200 (loader_documents (loader s))) of
               Inl e \<Rightarrow>
                 rebuild P uploaded_files s
                   = (Some e, s\<lparr>calls := calls s @ [Split_documents,
                        FAISS_from_documents
                          (split_documents P 1500 200 (loader_documents (loader s)))]\<rparr>)
             | Inr vector \<Rightarrow>
                 rebuild P uploaded_files s
                   = (None, s\<lparr>agent := make_agent [vector_tool uploaded_files vector],
                        calls := calls s @ [Split_documents,
                          FAISS_from_documents
                            (split_documents P 1500 200 (loader_documents (loader s))),
                          From_llm_and_tools 1],
                        on_change := False\<rparr>)))"
  using assms by (simp add: rebuild_def Let_def split: sum.splits)

theorem rebuild_branches_on_loader_size_witness:
  "on_change (session_ab\<lparr>on_change := True\<rparr>)
   \<and> 0 < loader_size (loader (session_ab\<lparr>on_change := True\<rparr>))
   \<and> rebuild demo_params [file_a, file_b] (session_ab\<lparr>on_change := True\<rparr>)
       = (None, session_ab\<lparr>on_change := True,
            agent := make_agent [vector_tool [file_a, file_b]
              [\<lparr>page_content = ''alpha'', source = ''/tmp/u/a.txt''\<rparr>,
               \<lparr>page_content = ''beta'', source = ''/tmp/u/b.txt''\<rparr>]],
            calls := calls session_ab @ [Split_documents,
              FAISS_from_documents
                [\<lparr>page_content = ''alpha'', source = ''/tmp/u/a.txt''\<rparr>,
                 \<lparr>page_content = ''beta'', source = ''/tmp/u/b.txt''\<rparr>],
              From_llm_and_tools 1],
            on_change := False\<rparr>)"
proof -
  have h: "on_change (session_ab\<lparr>on_change := True\<rparr>)" by simp
  show ?thesis
    using rebuild_branches_on_loader_size [OF h, of demo_params "[file_a, file_b]"]
    by (simp add: session_ab_facts loader_size_def loader_documents_def demo_params_def blank_def)
qed

text \<open>
  C3 as stated fails: one tracked file whose only segment is blank gives no chunk, and the
  rebuild still calls the vector store constructor, on the empty list. With a constructor
  that raises on it the rebuild raises; with one that accepts it the agent gets a tool. In
  neither case is a toolless agent composed.
\<close>

theorem zero_chunks_not_toolless:
  "files session_blank = [file_blank]
   \<and> on_change session_blank
   \<and> split_documents demo_params 1500 200 (loader_documents (loader session_blank)) = []
   \<and> fst (rebuild demo_params [file_blank] session_blank) = Some IndexError
   \<and> FAISS_from_documents [] \<in> set (calls (snd (rebuild demo_params [file_blank] session_blank)))
   \<and> split_documents lenient_params 1500 200 (loader_documents (loader session_blank)) = []
   \<and> fst (rebuild lenient_params [file_blank] session_blank) = None
   \<and> length (tools (agent (snd (rebuild lenient_params [file_blank] session_blank)))) = 1"
  by (simp add: session_blank_facts rebuild_def loader_size_def loader_documents_def
      demo_params_def lenient_params_def blank_def Let_def make_agent_def)

section \<open>A load that fails\<close>





section \<open>Removing two files in one run\<close>

text \<open>
  C2. With \<open>file_a\<close> and \<open>file_b\<close> tracked and an empty upload set, one reconcile
  removes \<open>file_a\<close> and ends: the iterator's index is 1 and the list has one element
  left. \<open>file_b\<close> stays tracked, loaded and staged, so the tracked files are not the
  reported ones.
\<close>

theorem removal_loop_skips_next_file:
  "fst (reconcile demo_params [] session_ab) = None
   \<and> files (snd (reconcile demo_params [] session_ab)) = [file_b]
   \<and> loader (snd (reconcile demo_params [] session_ab)) = [(''/tmp/u/b.txt'', [''beta''])]
   \<and> tmp_dir (snd (reconcile demo_params [] session_ab)) = [(''/tmp/u/b.txt'', ''beta'')]"
  by (simp add: session_ab_facts script_defs demo_defs removal_loop.simps)

text \<open>
  C6. After a whole run on the empty upload set (reconcile and rebuild, which clears the
  flag), a second reconcile on the same empty set removes \<open>file_b\<close> from the tracked
  files, the loader and the staged files, and sets the flag again.
\<close>

theorem second_reconcile_mutates:
  "fst (cycle demo_params [] session_ab) = None
   \<and> files (snd (cycle demo_params [] session_ab)) = [file_b]
   \<and> \<not> on_change (snd (cycle demo_params [] session_ab))
   \<and> fst (reconcile demo_params [] (snd (cycle demo_params [] session_ab))) = None
   \<and> files (snd (reconcile demo_params [] (snd (cycle demo_params [] session_ab)))) = []
   \<and> loader (snd (reconcile demo_params [] (snd (cycle demo_params [] session_ab)))) = []
   \<and> tmp_dir (snd (reconcile demo_params [] (snd (cycle demo_params [] session_ab)))) = []
   \<and> on_change (snd (reconcile demo_params [] (snd (cycle demo_params [] session_ab))))"
  by (simp add: session_ab_facts script_defs demo_defs removal_loop.simps)

section \<open>Tracked files, loader and tools over a session\<close>



















end
